theory Spec2Isabelle
  imports Complex_Main
begin

section \<open>The shared shader header \<^verbatim>\<open>Common.h\<close>\<close>

text \<open>
  The header is GLSL; its \<^verbatim>\<open>float\<close> is IEEE 754 single precision (binary32).

  The functions that only compare (\<^verbatim>\<open>FailsAlphaTest\<close>, \<^verbatim>\<open>saturate\<close>) and the clipping
  macro are modelled on the finite values, each taken as the real number it denotes:
  comparison, \<^verbatim>\<open>min\<close>, \<^verbatim>\<open>max\<close> and \<^verbatim>\<open>clamp\<close> return one of their arguments and never
  round. That is the type \<open>float\<close>.

  The functions that compute sums and products (\<^verbatim>\<open>TransformNormal\<close>,
  \<^verbatim>\<open>CalculateClippingPlane\<close>) are modelled on all the values of the format, the type
  \<open>binary32\<close>: every sum and product is rounded to the nearest value (ties to even),
  overflows to an infinity, and is NaN for \<open>inf - inf\<close> and \<open>inf * 0\<close>. The two zeros of
  the format compare equal and are one value here.
\<close>

type_synonym float = real

subsection \<open>Binding-slot constants\<close>

definition GLOBAL_CONSTANTS_RESOURCE_SET :: int where
  "GLOBAL_CONSTANTS_RESOURCE_SET = 0"

definition PASS_CONSTANTS_RESOURCE_SET :: int where
  "PASS_CONSTANTS_RESOURCE_SET = 1"

definition MATERIAL_CONSTANTS_RESOURCE_SET :: int where
  "MATERIAL_CONSTANTS_RESOURCE_SET = 2"

definition RENDER_ITEM_CONSTANTS_RESOURCE_SET :: int where
  "RENDER_ITEM_CONSTANTS_RESOURCE_SET = 3"

definition WATER_ANIMATION_CONSTANTS_RESOURCE_SET :: int where
  "WATER_ANIMATION_CONSTANTS_RESOURCE_SET = 4"

subsection \<open>Single-precision arithmetic\<close>

datatype binary32 = Finite real | PosInf | NegInf | NaN

text \<open>
  The finite values are the multiples \<open>m * 2 ^ j / 2 ^ 149\<close> with \<open>\<bar>m\<bar> < 2 ^ 24\<close> and
  \<open>j \<le> 253\<close>. For \<open>a \<ge> 0\<close>, \<open>binade n a\<close> is the largest \<open>k \<le> n\<close> with
  \<open>2 ^ k / 2 ^ 126 \<le> a\<close>, and 0 when there is none: the binade of \<open>a\<close>, counted from the
  subnormal range. The spacing of the format around \<open>r\<close> is then \<open>ulp r\<close>.
\<close>

primrec binade :: "nat \<Rightarrow> real \<Rightarrow> nat" where
  "binade 0 a = 0"
| "binade (Suc n) a = (if 2 ^ Suc n \<le> a * 2 ^ 126 then Suc n else binade n a)"

definition ulp :: "real \<Rightarrow> real" where
  "ulp r = 2 ^ binade 254 \<bar>r\<bar> / 2 ^ 149"

text \<open>Rounding a real to the nearest integer, a tie to the even one.\<close>

definition rne :: "real \<Rightarrow> int" where
  "rne x = (let f = \<lfloor>x\<rfloor>; d = x - of_int f in
     if d < 1 / 2 then f else if 1 / 2 < d then f + 1 else if even f then f else f + 1)"

definition round_val :: "real \<Rightarrow> real" where
  "round_val r = of_int (rne (r / ulp r)) * ulp r"

text \<open>Rounding a real result to the format; a magnitude of \<open>2 ^ 128\<close> or more overflows.\<close>

definition rnd :: "real \<Rightarrow> binary32" where
  "rnd r = (if 2 ^ 128 \<le> \<bar>round_val r\<bar> then (if 0 < r then PosInf else NegInf)
            else Finite (round_val r))"

text \<open>A real is a value of the format when rounding leaves it as it is.\<close>

definition is_binary32 :: "real \<Rightarrow> bool" where
  "is_binary32 r = (rnd r = Finite r)"

text \<open>The operators \<^verbatim>\<open>+\<close> and \<^verbatim>\<open>*\<close> on \<^verbatim>\<open>float\<close>.\<close>

fun fadd :: "binary32 \<Rightarrow> binary32 \<Rightarrow> binary32" where
  "fadd (Finite a) (Finite b) = rnd (a + b)"
| "fadd NaN _ = NaN"
| "fadd _ NaN = NaN"
| "fadd PosInf NegInf = NaN"
| "fadd NegInf PosInf = NaN"
| "fadd PosInf _ = PosInf"
| "fadd _ PosInf = PosInf"
| "fadd NegInf _ = NegInf"
| "fadd _ NegInf = NegInf"

fun fmul :: "binary32 \<Rightarrow> binary32 \<Rightarrow> binary32" where
  "fmul (Finite a) (Finite b) = rnd (a * b)"
| "fmul NaN _ = NaN"
| "fmul _ NaN = NaN"
| "fmul (Finite a) PosInf = (if a = 0 then NaN else if 0 < a then PosInf else NegInf)"
| "fmul (Finite a) NegInf = (if a = 0 then NaN else if 0 < a then NegInf else PosInf)"
| "fmul PosInf (Finite b) = (if b = 0 then NaN else if 0 < b then PosInf else NegInf)"
| "fmul NegInf (Finite b) = (if b = 0 then NaN else if 0 < b then NegInf else PosInf)"
| "fmul PosInf PosInf = PosInf"
| "fmul PosInf NegInf = NegInf"
| "fmul NegInf PosInf = NegInf"
| "fmul NegInf NegInf = PosInf"

subsection \<open>Vectors, matrices and the built-in operations the header calls\<close>

datatype 'a vec2 = vec2 (vec2_x: 'a) (vec2_y: 'a)

datatype 'a vec3 = vec3 (vec3_x: 'a) (vec3_y: 'a) (vec3_z: 'a)

datatype 'a vec4 = vec4 (vec4_x: 'a) (vec4_y: 'a) (vec4_z: 'a) (vec4_w: 'a)

text \<open>A \<^verbatim>\<open>mat4\<close> is stored by columns: \<^verbatim>\<open>m[c]\<close> is column \<^verbatim>\<open>c\<close>.\<close>

datatype 'a mat4 = mat4 (col0: "'a vec4") (col1: "'a vec4") (col2: "'a vec4") (col3: "'a vec4")

text \<open>The constructor \<^verbatim>\<open>vec4(v, s)\<close> from a \<^verbatim>\<open>vec3\<close> and a scalar.\<close>

definition vec4_of :: "'a vec3 \<Rightarrow> 'a \<Rightarrow> 'a vec4" where
  "vec4_of v s = vec4 (vec3_x v) (vec3_y v) (vec3_z v) s"

text \<open>The swizzle \<^verbatim>\<open>.xyz\<close>.\<close>

definition xyz :: "'a vec4 \<Rightarrow> 'a vec3" where
  "xyz v = vec3 (vec4_x v) (vec4_y v) (vec4_z v)"

text \<open>\<^verbatim>\<open>dot(a, b)\<close> on \<^verbatim>\<open>vec4\<close>: the four products, summed from left to right.\<close>

definition dot :: "binary32 vec4 \<Rightarrow> binary32 vec4 \<Rightarrow> binary32" where
  "dot a b = fadd (fadd (fadd (fmul (vec4_x a) (vec4_x b)) (fmul (vec4_y a) (vec4_y b)))
                    (fmul (vec4_z a) (vec4_z b)))
               (fmul (vec4_w a) (vec4_w b))"

text \<open>\<^verbatim>\<open>m * v\<close>: each component is the dot product of a row of \<^verbatim>\<open>m\<close> with \<^verbatim>\<open>v\<close>, that is
  the combination of the columns of \<^verbatim>\<open>m\<close> by the components of \<^verbatim>\<open>v\<close>.\<close>

definition mat4_mul_vec4 :: "binary32 mat4 \<Rightarrow> binary32 vec4 \<Rightarrow> binary32 vec4" where
  "mat4_mul_vec4 m v = vec4
     (dot (vec4 (vec4_x (col0 m)) (vec4_x (col1 m)) (vec4_x (col2 m)) (vec4_x (col3 m))) v)
     (dot (vec4 (vec4_y (col0 m)) (vec4_y (col1 m)) (vec4_y (col2 m)) (vec4_y (col3 m))) v)
     (dot (vec4 (vec4_z (col0 m)) (vec4_z (col1 m)) (vec4_z (col2 m)) (vec4_z (col3 m))) v)
     (dot (vec4 (vec4_w (col0 m)) (vec4_w (col1 m)) (vec4_w (col2 m)) (vec4_w (col3 m))) v)"



text \<open>\<^verbatim>\<open>clamp(x, minVal, maxVal)\<close> is \<^verbatim>\<open>min(max(x, minVal), maxVal)\<close>; on vectors it works
  component by component.\<close>

definition clamp :: "float \<Rightarrow> float \<Rightarrow> float \<Rightarrow> float" where
  "clamp x minVal maxVal = min (max x minVal) maxVal"

definition clamp_vec3 :: "float vec3 \<Rightarrow> float vec3 \<Rightarrow> float vec3 \<Rightarrow> float vec3" where
  "clamp_vec3 v minVal maxVal = vec3
     (clamp (vec3_x v) (vec3_x minVal) (vec3_x maxVal))
     (clamp (vec3_y v) (vec3_y minVal) (vec3_y maxVal))
     (clamp (vec3_z v) (vec3_z minVal) (vec3_z maxVal))"

subsection \<open>The uniform block\<close>

text \<open>
  The struct behind the uniform \<^verbatim>\<open>_GlobalConstants\<close>, bound at set
  \<^verbatim>\<open>GLOBAL_CONSTANTS_RESOURCE_SET\<close>, binding 0. No function of the header reads it: the
  callers pass its fields as arguments.
\<close>

record GlobalConstantsType =
  CameraPosition :: "binary32 vec3"
  TimeInSeconds :: binary32
  ViewProjection :: "binary32 mat4"
  ClippingPlane1 :: "binary32 vec4"
  ClippingPlane2 :: "binary32 vec4"
  HasClippingPlane1 :: bool
  HasClippingPlane2 :: bool
  ViewportSize :: "binary32 vec2"

subsection \<open>The functions of the header\<close>

text \<open>
  The literal \<^verbatim>\<open>0.37647f\<close> is a single-precision constant: the binary32 value nearest to
  the decimal 0.37647, which is \<open>12632237 / 2 ^ 25\<close> (bit pattern \<^verbatim>\<open>0x3EC0C0AD\<close>).
\<close>

definition lit_0_37647f :: float where
  "lit_0_37647f = 12632237 / 2 ^ 25"

definition FailsAlphaTest :: "float \<Rightarrow> bool" where
  "FailsAlphaTest alpha = (alpha < lit_0_37647f)"

definition TransformNormal :: "binary32 vec3 \<Rightarrow> binary32 mat4 \<Rightarrow> binary32 vec3" where
  "TransformNormal v m = xyz (mat4_mul_vec4 m (vec4_of v (Finite 0)))"

definition saturate :: "float \<Rightarrow> float" where
  "saturate v = clamp v 0.0 1.0"

definition saturate_vec3 :: "float vec3 \<Rightarrow> float vec3" where
  "saturate_vec3 v = clamp_vec3 v (vec3 0 0 0) (vec3 1 1 1)"

definition CalculateClippingPlane :: "binary32 vec3 \<Rightarrow> bool \<Rightarrow> binary32 vec4 \<Rightarrow> binary32" where
  "CalculateClippingPlane position hasClippingPlane plane =
     (if hasClippingPlane then dot (vec4_of position (Finite 1)) plane else Finite 1)"

text \<open>
  The macro \<^verbatim>\<open>DO_CLIPPING(position)\<close> expands to two assignments to the built-in output
  array \<^verbatim>\<open>gl_ClipDistance\<close>, which is the state it acts on: first element 0, then
  element 1. The array is a map from index to value. The macro parameter does not occur
  in the expansion.
\<close>

definition DO_CLIPPING :: "'p \<Rightarrow> (nat \<Rightarrow> float) \<Rightarrow> (nat \<Rightarrow> float)" where
  "DO_CLIPPING position gl_ClipDistance = (gl_ClipDistance(0 := 1.0))(1 := 1.0)"

subsection \<open>Inputs on which the arithmetic is exact\<close>




section \<open>Properties\<close>

subsection \<open>Rounding\<close>

lemma binade_lower: "0 < binade n a \<Longrightarrow> 2 ^ binade n a \<le> a * 2 ^ 126"
  by (induction n) auto

lemma binade_eq:
  "K \<le> n \<Longrightarrow> K = 0 \<or> 2 ^ K \<le> a * 2 ^ 126 \<Longrightarrow> K = n \<or> a * 2 ^ 126 < 2 ^ Suc K
   \<Longrightarrow> binade n a = K"
proof (induction n)
  case 0
  then show ?case by simp
next
  case (Suc n)
  show ?case
  proof (cases "K = Suc n")
    case True
    with Suc.prems show ?thesis by auto
  next
    case False
    with Suc.prems have lt: "a * 2 ^ 126 < 2 ^ Suc K" and le: "K \<le> n" by auto
    have "(2::real) ^ Suc K \<le> 2 ^ Suc n"
      using le by (intro power_increasing) auto
    with lt have "\<not> 2 ^ Suc n \<le> a * 2 ^ 126" by linarith
    moreover have "binade n a = K"
    proof (rule Suc.IH [OF le])
      show "K = 0 \<or> 2 ^ K \<le> a * 2 ^ 126" using Suc.prems by blast
      show "K = n \<or> a * 2 ^ 126 < 2 ^ Suc K" using lt by blast
    qed
    ultimately show ?thesis by simp
  qed
qed

lemma rne_of_int: "rne (of_int n) = n"
  by (simp add: rne_def)

lemma rnd_zero: "rnd 0 = Finite 0"
  by (simp add: rnd_def round_val_def rne_def)

text \<open>Evaluating a rounding: name the binade \<open>K\<close> and the rounded significand \<open>n\<close>.\<close>

lemma round_val_eq:
  assumes "K \<le> 254" "K = 0 \<or> 2 ^ K \<le> \<bar>r\<bar> * 2 ^ 126"
    "K = 254 \<or> \<bar>r\<bar> * 2 ^ 126 < 2 ^ Suc K"
  shows "round_val r = of_int (rne (r * 2 ^ 149 / 2 ^ K)) * 2 ^ K / 2 ^ 149"
proof -
  have "binade 254 \<bar>r\<bar> = K" using assms by (rule binade_eq)
  then show ?thesis by (simp add: round_val_def ulp_def)
qed

lemma rnd_eqI:
  assumes "K \<le> 254" "K = 0 \<or> 2 ^ K \<le> \<bar>r\<bar> * 2 ^ 126"
    "K = 254 \<or> \<bar>r\<bar> * 2 ^ 126 < 2 ^ Suc K"
    and "rne (r * 2 ^ 149 / 2 ^ K) = n"
    and "v = of_int n * 2 ^ K / 2 ^ 149"
    and "\<bar>v\<bar> < 2 ^ 128"
  shows "rnd r = Finite v"
proof -
  have "round_val r = v"
    using round_val_eq [OF assms(1-3)] assms(4,5) by simp
  with assms(6) show ?thesis by (simp add: rnd_def)
qed

text \<open>
  Every finite value of the format, \<open>m * 2 ^ j / 2 ^ 149\<close> with a significand of at most
  24 bits, is left as it is by rounding; so is every integer below \<open>2 ^ 24\<close>.
\<close>

lemma rnd_fixed:
  assumes m: "\<bar>m\<bar> < 2 ^ 24" and j: "j \<le> 253"
  shows "rnd (of_int m * 2 ^ j / 2 ^ 149) = Finite (of_int m * 2 ^ j / 2 ^ 149)"
proof -
  define r :: real where "r = of_int m * 2 ^ j / 2 ^ 149"
  define K where "K = binade 254 \<bar>r\<bar>"
  have absr: "\<bar>r\<bar> = of_int \<bar>m\<bar> * 2 ^ j / 2 ^ 149"
    by (simp add: r_def abs_mult)
  have m': "real_of_int \<bar>m\<bar> < 2 ^ 24"
    using m by (metis of_int_less_numeral_power_cancel_iff)
  have Kj: "K \<le> j"
  proof (cases "K = 0")
    case True
    then show ?thesis by simp
  next
    case False
    then have "2 ^ K \<le> \<bar>r\<bar> * 2 ^ 126"
      unfolding K_def by (intro binade_lower) simp
    also have "\<bar>r\<bar> * 2 ^ 126 = of_int \<bar>m\<bar> * 2 ^ j / 2 ^ 23"
      by (simp add: absr)
    also have "\<dots> < 2 ^ 24 * 2 ^ j / 2 ^ 23"
      using m' by (simp add: divide_strict_right_mono)
    also have "\<dots> = 2 ^ Suc j" by simp
    finally have "(2::real) ^ K < 2 ^ Suc j" .
    then have "K < Suc j" by (rule power_less_imp_less_exp [rotated]) simp
    then show ?thesis by simp
  qed
  have ulp: "ulp r = 2 ^ K / 2 ^ 149"
    unfolding ulp_def K_def ..
  have "r / ulp r = r * 2 ^ 149 / 2 ^ K"
    by (simp add: ulp)
  also have "\<dots> = of_int m * (2 ^ j / 2 ^ K)"
    by (simp add: r_def)
  also have "(2::real) ^ j / 2 ^ K = 2 ^ (j - K)"
    using Kj by (simp add: power_diff)
  finally have "r / ulp r = of_int (m * 2 ^ (j - K))" by simp
  then have "rne (r / ulp r) = m * 2 ^ (j - K)"
    by (simp only: rne_of_int)
  then have "round_val r = of_int (m * 2 ^ (j - K)) * (2 ^ K / 2 ^ 149)"
    by (simp only: round_val_def ulp)
  also have "\<dots> = of_int m * (2 ^ (j - K) * 2 ^ K) / 2 ^ 149" by simp
  also have "(2::real) ^ (j - K) * 2 ^ K = 2 ^ j"
    using Kj by (simp flip: power_add)
  finally have rv: "round_val r = r" by (simp add: r_def)
  have "\<bar>r\<bar> < 2 ^ 24 * 2 ^ j / 2 ^ 149"
    unfolding absr using m' by (simp add: divide_strict_right_mono)
  also have "\<dots> \<le> 2 ^ 24 * 2 ^ 253 / 2 ^ 149"
  proof -
    have "(2::real) ^ j \<le> 2 ^ 253"
      using j by (intro power_increasing) auto
    then show ?thesis
      by (intro divide_right_mono mult_left_mono) auto
  qed
  also have "\<dots> = 2 ^ 128" by simp
  finally have "\<bar>r\<bar> < 2 ^ 128" .
  with rv show ?thesis by (simp add: rnd_def r_def)
qed

lemma rnd_int: "\<bar>k\<bar> < 2 ^ 24 \<Longrightarrow> rnd (of_int k) = Finite (of_int k)"
  using rnd_fixed [of k 149] by simp

lemma is_binary32_value: "\<bar>m\<bar> < 2 ^ 24 \<Longrightarrow> j \<le> 253 \<Longrightarrow> is_binary32 (of_int m * 2 ^ j / 2 ^ 149)"
  unfolding is_binary32_def by (rule rnd_fixed)


lemma fmul_one [simp]: "fmul (Finite 1) (Finite t) = rnd t" "fmul (Finite t) (Finite 1) = rnd t"
  by simp_all

lemma fadd_zero [simp]: "fadd (Finite t) (Finite 0) = rnd t" "fadd (Finite 0) (Finite t) = rnd t"
  by simp_all

text \<open>The roundings used in the examples below.\<close>

lemma rnd_examples:
  "rnd 1 = Finite 1" "rnd (- 1) = Finite (- 1)" "rnd (- 5) = Finite (- 5)"
  "rnd 3 = Finite 3" "rnd 100000000 = Finite 100000000"
  "rnd (1 / 2 ^ 30) = Finite (1 / 2 ^ 30)" "rnd (1 / 2 ^ 24) = Finite (1 / 2 ^ 24)"
  "rnd (3 / 2 ^ 24) = Finite (3 / 2 ^ 24)"
  using rnd_int [of 1] rnd_int [of "- 1"] rnd_int [of "- 5"] rnd_int [of 3]
    rnd_fixed [of 12500000 152] rnd_fixed [of 1 119] rnd_fixed [of 1 125]
    rnd_fixed [of 3 125]
  by simp_all

lemma rnd_inexact_examples:
  "rnd 100000001 = Finite 100000000"
  "rnd (1 + 1 / 2 ^ 30) = Finite 1"
  "rnd (1 + 1 / 2 ^ 24) = Finite 1"
  "rnd (3 + 3 / 2 ^ 24) = Finite (3 + 1 / 2 ^ 22)"
  "rnd ((13421773 / 2 ^ 27) * (13421773 / 2 ^ 27)) = Finite (10737419 / 2 ^ 30)"
proof -
  show "rnd 100000001 = Finite 100000000"
    by (rule rnd_eqI [where K = 152 and n = 12500000]) (simp_all add: rne_def)
  show "rnd (1 + 1 / 2 ^ 30) = Finite 1"
    by (rule rnd_eqI [where K = 126 and n = "2 ^ 23"]) (simp_all add: rne_def)
  show "rnd (1 + 1 / 2 ^ 24) = Finite 1"
    by (rule rnd_eqI [where K = 126 and n = "2 ^ 23"]) (simp_all add: rne_def)
  show "rnd (3 + 3 / 2 ^ 24) = Finite (3 + 1 / 2 ^ 22)"
    by (rule rnd_eqI [where K = 127 and n = "3 * 2 ^ 22 + 1"]) (simp_all add: rne_def)
  show "rnd ((13421773 / 2 ^ 27) * (13421773 / 2 ^ 27)) = Finite (10737419 / 2 ^ 30)"
    by (rule rnd_eqI [where K = 119 and n = 10737419]) (simp_all add: rne_def)
qed

lemma rnd_overflow_example: "rnd (2 ^ 127 * 2) = PosInf"
proof -
  have "round_val (2 ^ 127 * 2) = of_int (rne (2 ^ 127 * 2 * 2 ^ 149 / 2 ^ 254)) * 2 ^ 254 / 2 ^ 149"
    by (rule round_val_eq) simp_all
  then have "round_val (2 ^ 127 * 2) = 2 ^ 128" by (simp add: rne_def)
  then show ?thesis by (simp add: rnd_def)
qed

subsection \<open>Exact arithmetic on small integers\<close>









subsection \<open>The literal of the alpha test\<close>

text \<open>
  The constant is a binary32 value (a 24-bit significand scaled by \<open>2 ^ 25\<close>), it is
  within half a unit in the last place of the decimal 0.37647, and it lies below both the
  decimal and \<open>0x60 / 0xFF\<close>.
\<close>

lemma lit_0_37647f_binary32:
  "lit_0_37647f = 12632237 / 2 ^ 25 \<and> (2::nat) ^ 23 \<le> 12632237 \<and> (12632237::nat) < 2 ^ 24"
  by (simp add: lit_0_37647f_def)

lemma lit_0_37647f_nearest: "\<bar>lit_0_37647f - 0.37647\<bar> < 1 / 2 ^ 26"
  by (simp add: lit_0_37647f_def abs_real_def)

lemma lit_0_37647f_below: "lit_0_37647f < 0.37647 \<and> lit_0_37647f < 0x60 / 0xFF"
  by (simp add: lit_0_37647f_def)

text \<open>
  On the 8-bit alpha levels \<open>k / 255\<close> the literal separates exactly as \<open>0x60 / 0xFF\<close>
  would: level \<open>k\<close> fails the test if and only if \<open>k < 0x60\<close>.
\<close>

lemma FailsAlphaTest_8bit_levels: "FailsAlphaTest (real k / 255) \<longleftrightarrow> k < 0x60"
proof
  assume "FailsAlphaTest (real k / 255)"
  then have "real k < 96" by (simp add: FailsAlphaTest_def lit_0_37647f_def)
  then show "k < 0x60" by simp
next
  assume "k < 0x60"
  then have "real k \<le> 95" by simp
  then show "FailsAlphaTest (real k / 255)"
    by (simp add: FailsAlphaTest_def lit_0_37647f_def)
qed

subsection \<open>Binding slots\<close>

text \<open>
  C7. The five binding-slot constants are 0, 1, 2, 3 and 4, in the order global, pass,
  material, render item, water animation, and no two of them are equal.
\<close>

theorem resource_sets_are_0_to_4_distinct:
  "GLOBAL_CONSTANTS_RESOURCE_SET = 0
   \<and> PASS_CONSTANTS_RESOURCE_SET = 1
   \<and> MATERIAL_CONSTANTS_RESOURCE_SET = 2
   \<and> RENDER_ITEM_CONSTANTS_RESOURCE_SET = 3
   \<and> WATER_ANIMATION_CONSTANTS_RESOURCE_SET = 4
   \<and> distinct [GLOBAL_CONSTANTS_RESOURCE_SET, PASS_CONSTANTS_RESOURCE_SET,
        MATERIAL_CONSTANTS_RESOURCE_SET, RENDER_ITEM_CONSTANTS_RESOURCE_SET,
        WATER_ANIMATION_CONSTANTS_RESOURCE_SET]"
  by (simp add: GLOBAL_CONSTANTS_RESOURCE_SET_def PASS_CONSTANTS_RESOURCE_SET_def
      MATERIAL_CONSTANTS_RESOURCE_SET_def RENDER_ITEM_CONSTANTS_RESOURCE_SET_def
      WATER_ANIMATION_CONSTANTS_RESOURCE_SET_def)

subsection \<open>Alpha test\<close>

text \<open>
  C1, as stated: every alpha in \<open>[0, 0x60 / 0xFF)\<close> fails the test. This is false at
  the binary32 value \<open>12632247 / 2 ^ 25\<close> (about 0.3764703), which lies between the
  literal of the code and \<open>0x60 / 0xFF\<close>: there the test does not fail.
\<close>

theorem FailsAlphaTest_below_0x60_counterexample:
  "(0::float) \<le> 12632247 / 2 ^ 25
   \<and> (12632247 / 2 ^ 25 :: float) < 0x60 / 0xFF
   \<and> \<not> FailsAlphaTest (12632247 / 2 ^ 25)"
  by (simp add: FailsAlphaTest_def lit_0_37647f_def)

text \<open>
  C1, amended: the comparison is strict less-than against the literal \<^verbatim>\<open>0.37647f\<close>,
  the binary32 value \<open>12632237 / 2 ^ 25\<close>, just below \<open>0x60 / 0xFF\<close>. The test fails
  exactly for the alpha below the literal: for every alpha in \<open>[0, 0.37647f)\<close> the result
  is true, for every alpha from the literal on it is false, so it is false on all of
  \<open>[0x60 / 0xFF, 1]\<close> and in particular at \<open>0x60 / 0xFF\<close> itself.
\<close>

theorem FailsAlphaTest_threshold:
  "(FailsAlphaTest alpha \<longleftrightarrow> alpha < 12632237 / 2 ^ 25)
   \<and> (0 \<le> alpha \<and> alpha < 12632237 / 2 ^ 25 \<longrightarrow> FailsAlphaTest alpha)
   \<and> (12632237 / 2 ^ 25 \<le> alpha \<longrightarrow> \<not> FailsAlphaTest alpha)
   \<and> (0x60 / 0xFF \<le> alpha \<and> alpha \<le> 1 \<longrightarrow> \<not> FailsAlphaTest alpha)
   \<and> \<not> FailsAlphaTest (0x60 / 0xFF)"
  by (simp add: FailsAlphaTest_def lit_0_37647f_def)

theorem FailsAlphaTest_threshold_witness:
  "FailsAlphaTest (1 / 4) \<and> \<not> FailsAlphaTest (12632237 / 2 ^ 25)
   \<and> \<not> FailsAlphaTest (1 / 2)"
  using FailsAlphaTest_threshold [of "1 / 4"]
    FailsAlphaTest_threshold [of "12632237 / 2 ^ 25"]
    FailsAlphaTest_threshold [of "1 / 2"]
  by simp

subsection \<open>Clipping-plane distance\<close>

text \<open>
  C2. With the enable flag false, \<open>CalculateClippingPlane\<close> returns 1 for every position
  and every plane; the result depends on neither.
\<close>

theorem CalculateClippingPlane_disabled:
  "CalculateClippingPlane p False anyPlane = Finite 1
   \<and> CalculateClippingPlane p False anyPlane = CalculateClippingPlane q False otherPlane"
  by (simp add: CalculateClippingPlane_def)

text \<open>
  C3. With the enable flag true, \<open>CalculateClippingPlane\<close> returns the dot product of
  \<open>(p.x, p.y, p.z, 1)\<close> with the plane, the signed distance of the plane equation as
  single-precision arithmetic computes it; for \<open>p = (0, 0, 0)\<close> and the plane
  \<open>(0, 1, 0, -5)\<close> it returns \<open>-5\<close>.
\<close>

theorem CalculateClippingPlane_enabled:
  "CalculateClippingPlane p True plane
     = dot (vec4 (vec3_x p) (vec3_y p) (vec3_z p) (Finite 1)) plane
   \<and> CalculateClippingPlane p True plane
     = fadd (fadd (fadd (fmul (vec3_x p) (vec4_x plane)) (fmul (vec3_y p) (vec4_y plane)))
               (fmul (vec3_z p) (vec4_z plane)))
          (fmul (Finite 1) (vec4_w plane))
   \<and> CalculateClippingPlane (vec3 (Finite 0) (Finite 0) (Finite 0)) True
        (vec4 (Finite 0) (Finite 1) (Finite 0) (Finite (- 5))) = Finite (- 5)"
  using rnd_examples by (simp add: CalculateClippingPlane_def vec4_of_def dot_def rnd_zero)

text \<open>
  The dot product rounds and overflows as the format does: \<open>1e8 + 1\<close> is not a value of
  the format and comes out as \<open>1e8\<close>; the square of \<^verbatim>\<open>0.1f\<close> is rounded to 24 bits; and
  \<open>2 ^ 127 * 2\<close> is infinite.
\<close>

lemma CalculateClippingPlane_rounds:
  "CalculateClippingPlane (vec3 (Finite 100000000) (Finite 0) (Finite 0)) True
     (vec4 (Finite 1) (Finite 0) (Finite 0) (Finite 1)) = Finite 100000000"
  "CalculateClippingPlane (vec3 (Finite (13421773 / 2 ^ 27)) (Finite 0) (Finite 0)) True
     (vec4 (Finite (13421773 / 2 ^ 27)) (Finite 0) (Finite 0) (Finite 0))
     = Finite (10737419 / 2 ^ 30)"
  "CalculateClippingPlane (vec3 (Finite (2 ^ 127)) (Finite 0) (Finite 0)) True
     (vec4 (Finite 2) (Finite 0) (Finite 0) (Finite 0)) = PosInf"
  using rnd_examples rnd_inexact_examples rnd_overflow_example rnd_fixed [of 10737419 119]
  by (simp_all add: CalculateClippingPlane_def vec4_of_def dot_def rnd_zero)

subsection \<open>Normal transform\<close>

text \<open>
  The matrix-vector product rounds in the same way: with first row \<open>(1, 1, 0, 0)\<close> the
  direction \<open>(1e8, 1, 0)\<close> has the x component \<open>1e8\<close>, not \<open>1e8 + 1\<close>.
\<close>

lemma TransformNormal_rounds:
  "TransformNormal (vec3 (Finite 100000000) (Finite 1) (Finite 0))
     (mat4 (vec4 (Finite 1) (Finite 0) (Finite 0) (Finite 0))
           (vec4 (Finite 1) (Finite 1) (Finite 0) (Finite 0))
           (vec4 (Finite 0) (Finite 0) (Finite 1) (Finite 0))
           (vec4 (Finite 0) (Finite 0) (Finite 0) (Finite 1)))
     = vec3 (Finite 100000000) (Finite 1) (Finite 0)"
  using rnd_examples rnd_inexact_examples
  by (simp add: TransformNormal_def mat4_mul_vec4_def vec4_of_def xyz_def dot_def rnd_zero)







subsection \<open>Saturate\<close>

text \<open>
  C5. \<open>saturate x\<close> is 0 for \<open>x < 0\<close>, 1 for \<open>x > 1\<close>, and \<open>x\<close> itself for \<open>x\<close> in
  \<open>[0, 1]\<close>. The vector overload does the same to each of its three components,
  whatever the other two are.
\<close>

theorem saturate_cases:
  "(x < 0 \<longrightarrow> saturate x = 0)
   \<and> (1 < x \<longrightarrow> saturate x = 1)
   \<and> (0 \<le> x \<and> x \<le> 1 \<longrightarrow> saturate x = x)
   \<and> (vec3_x v < 0 \<longrightarrow> vec3_x (saturate_vec3 v) = 0)
   \<and> (1 < vec3_x v \<longrightarrow> vec3_x (saturate_vec3 v) = 1)
   \<and> (0 \<le> vec3_x v \<and> vec3_x v \<le> 1 \<longrightarrow> vec3_x (saturate_vec3 v) = vec3_x v)
   \<and> (vec3_y v < 0 \<longrightarrow> vec3_y (saturate_vec3 v) = 0)
   \<and> (1 < vec3_y v \<longrightarrow> vec3_y (saturate_vec3 v) = 1)
   \<and> (0 \<le> vec3_y v \<and> vec3_y v \<le> 1 \<longrightarrow> vec3_y (saturate_vec3 v) = vec3_y v)
   \<and> (vec3_z v < 0 \<longrightarrow> vec3_z (saturate_vec3 v) = 0)
   \<and> (1 < vec3_z v \<longrightarrow> vec3_z (saturate_vec3 v) = 1)
   \<and> (0 \<le> vec3_z v \<and> vec3_z v \<le> 1 \<longrightarrow> vec3_z (saturate_vec3 v) = vec3_z v)"
  by (simp add: saturate_def saturate_vec3_def clamp_vec3_def clamp_def)

theorem saturate_cases_witness:
  "saturate (- 2) = 0 \<and> saturate 3 = 1 \<and> saturate (1 / 2) = 1 / 2
   \<and> vec3_x (saturate_vec3 (vec3 (- 2) 3 (1 / 2))) = 0
   \<and> vec3_y (saturate_vec3 (vec3 (- 2) 3 (1 / 2))) = 1
   \<and> vec3_z (saturate_vec3 (vec3 (- 2) 3 (1 / 2))) = 1 / 2
   \<and> vec3_x (saturate_vec3 (vec3 3 (1 / 2) (- 2))) = 1
   \<and> vec3_y (saturate_vec3 (vec3 3 (1 / 2) (- 2))) = 1 / 2
   \<and> vec3_z (saturate_vec3 (vec3 3 (1 / 2) (- 2))) = 0
   \<and> vec3_x (saturate_vec3 (vec3 (1 / 2) (- 2) 3)) = 1 / 2
   \<and> vec3_y (saturate_vec3 (vec3 (1 / 2) (- 2) 3)) = 0
   \<and> vec3_z (saturate_vec3 (vec3 (1 / 2) (- 2) 3)) = 1"
  using saturate_cases [of "- 2" "vec3 (- 2) 3 (1 / 2)"]
    saturate_cases [of 3 "vec3 3 (1 / 2) (- 2)"]
    saturate_cases [of "1 / 2" "vec3 (1 / 2) (- 2) 3"]
  by simp

text \<open>
  C9. \<open>saturate\<close> is idempotent, on scalars and on vectors: every output lies in
  \<open>[0, 1]\<close> (in each component) and is a fixed point of \<open>saturate\<close>.
\<close>

theorem saturate_idempotent:
  "saturate (saturate x) = saturate x
   \<and> saturate_vec3 (saturate_vec3 v) = saturate_vec3 v
   \<and> 0 \<le> saturate x \<and> saturate x \<le> 1
   \<and> 0 \<le> vec3_x (saturate_vec3 v) \<and> vec3_x (saturate_vec3 v) \<le> 1
   \<and> 0 \<le> vec3_y (saturate_vec3 v) \<and> vec3_y (saturate_vec3 v) \<le> 1
   \<and> 0 \<le> vec3_z (saturate_vec3 v) \<and> vec3_z (saturate_vec3 v) \<le> 1"
  by (simp add: saturate_def saturate_vec3_def clamp_vec3_def clamp_def)

subsection \<open>The clipping macro\<close>

text \<open>
  C6. Whatever its position argument, \<open>DO_CLIPPING\<close> leaves both hardware clip distances,
  elements 0 and 1 of \<open>gl_ClipDistance\<close>, at the constant 1.0. Its effect does not
  depend on the argument, and both distances are positive, so nothing is clipped.
\<close>

theorem DO_CLIPPING_forces_one:
  "DO_CLIPPING position cd 0 = 1 \<and> DO_CLIPPING position cd 1 = 1
   \<and> DO_CLIPPING position cd = DO_CLIPPING position' cd
   \<and> 0 < DO_CLIPPING position cd 0 \<and> 0 < DO_CLIPPING position cd 1"
  by (simp add: DO_CLIPPING_def)


end
